theory Spec2Isabelle
  imports Complex_Main
begin

section \<open>Numbers\<close>

text \<open>
  The program is JavaScript: every number is an IEEE double. The model reads glucose
  values, timestamps (milliseconds) and minutes as real numbers, array indices and
  counters as natural numbers or integers. Where a division by zero of the source
  yields \<open>Infinity\<close> or \<open>NaN\<close>, the model says so with an \<open>option\<close>.
\<close>

definition jsRound :: "real \<Rightarrow> int" where
  \<comment> \<open>\<open>Math.round\<close>: the nearest integer, a tie going up.\<close>
  "jsRound x = \<lfloor>x + 1 / 2\<rfloor>"

section \<open>Food sugar prediction model\<close>

definition absorptionDelta :: "real \<Rightarrow> real \<Rightarrow> real \<Rightarrow> real" where
  \<comment> \<open>The body of the loop of \<open>predictSugarCurve\<close> (\<open>x\<close>, \<open>shape\<close>, \<open>delta\<close>); the same three
      lines are the body of \<open>mealDeltaAtMinute\<close>.\<close>
  "absorptionDelta peakRise t peakMin =
     (let x = t / max 1 peakMin;
          shape = x * exp (1 - x)
      in peakRise * shape)"

function curveLoop :: "real \<Rightarrow> real \<Rightarrow> real \<Rightarrow> real \<Rightarrow> nat \<Rightarrow> (real \<times> real) list" where
  "curveLoop currentBg peakRise peakMin horizonMin t =
     (if real t \<le> horizonMin
      then (real t, currentBg + absorptionDelta peakRise (real t) peakMin)
             # curveLoop currentBg peakRise peakMin horizonMin (t + 10)
      else [])"
  by pat_completeness auto
termination
proof (relation "measure (\<lambda>(c, r, p, h, t). nat (\<lfloor>h\<rfloor> + 1) - t)")
  show "wf (measure (\<lambda>(c, r, p, h, t). nat (\<lfloor>h\<rfloor> + 1) - t))" by simp
next
  fix currentBg peakRise peakMin horizonMin :: real and t :: nat
  assume "real t \<le> horizonMin"
  then have "int t \<le> \<lfloor>horizonMin\<rfloor>" by (simp add: le_floor_iff)
  then show "((currentBg, peakRise, peakMin, horizonMin, t + 10),
              (currentBg, peakRise, peakMin, horizonMin, t))
             \<in> measure (\<lambda>(c, r, p, h, t). nat (\<lfloor>h\<rfloor> + 1) - t)"
    by simp
qed

declare curveLoop.simps [simp del]

definition predictSugarCurve ::
  "real \<Rightarrow> real \<Rightarrow> real \<Rightarrow> real \<Rightarrow> real \<Rightarrow> real \<Rightarrow> (real \<times> real) list" where
  \<comment> \<open>A point \<open>{tMin, bg}\<close> is the pair \<open>(tMin, bg)\<close>.\<close>
  "predictSugarCurve currentBg gramsSugar mgdlPerGram peakMin horizonMin activityFactor =
     (let peakRise = gramsSugar * mgdlPerGram * activityFactor
      in curveLoop currentBg peakRise peakMin horizonMin 0)"

section \<open>Backtest: baseline against improved alert logic\<close>

record sample =
  tMs :: real
  bg :: real

datatype risk = NONE | HYPO | HYPER

record counts =
  TP :: nat
  FP :: nat
  FN :: nat

record policy_state =
  active :: risk
  persist :: nat
  cooldownUntilMs :: real

record loop_state =
  baseCounts :: counts
  impCounts :: counts
  policy :: policy_state

record policy_report = counts +
  precisionOf :: real
  recallOf :: real

record report =
  baseline :: policy_report
  improved :: policy_report
  fpReductionPct :: real

definition stepMinOf :: "sample list \<Rightarrow> real" where
  "stepMinOf series = (tMs (series ! 1) - tMs (series ! 0)) / 60000"

definition horizonSteps :: "sample list \<Rightarrow> real \<Rightarrow> nat option" where
  \<comment> \<open>\<open>Math.max(1, Math.round(horizonMin / stepMin))\<close>. With \<open>stepMin = 0\<close> the quotient is
      \<open>Infinity\<close> (\<open>horizonMin > 0\<close>), \<open>NaN\<close> (\<open>horizonMin = 0\<close>) or \<open>-Infinity\<close>
      (\<open>horizonMin < 0\<close>); \<open>Math.max\<close> keeps the first two and turns the third into 1.
      \<open>None\<close> stands for \<open>Infinity\<close> and \<open>NaN\<close>.\<close>
  "horizonSteps series horizonMin =
     (let stepMin = stepMinOf series
      in if stepMin = 0 then (if horizonMin < 0 then Some 1 else None)
         else Some (nat (max 1 (jsRound (horizonMin / stepMin)))))"

definition slopePerMin :: "sample list \<Rightarrow> nat \<Rightarrow> nat \<Rightarrow> real" where
  "slopePerMin series i k =
     (let start = nat (max 0 (int i - int k + 1));
          t0 = tMs (series ! start);
          t1 = tMs (series ! i);
          dt = (t1 - t0) / 60000
      in if dt \<le> 0 then 0 else (bg (series ! i) - bg (series ! start)) / dt)"

definition projectedBg :: "sample list \<Rightarrow> real \<Rightarrow> nat \<Rightarrow> real" where
  "projectedBg series horizonMin i =
     (let m = slopePerMin series i 6 in bg (series ! i) + m * horizonMin)"

subsection \<open>Future truth labels\<close>

definition future :: "sample list \<Rightarrow> nat \<Rightarrow> nat \<Rightarrow> sample list" where
  \<comment> \<open>\<open>series.slice(i + 1, i + 1 + horizonSteps)\<close>\<close>
  "future series hs i = take hs (drop (i + 1) series)"

definition trueHypo :: "sample list \<Rightarrow> real \<Rightarrow> nat \<Rightarrow> nat \<Rightarrow> bool" where
  "trueHypo series low hs i = list_ex (\<lambda>p. bg p < low) (future series hs i)"

definition trueHyper :: "sample list \<Rightarrow> real \<Rightarrow> nat \<Rightarrow> nat \<Rightarrow> bool" where
  "trueHyper series high hs i = list_ex (\<lambda>p. high < bg p) (future series hs i)"

definition trueEvent :: "sample list \<Rightarrow> real \<Rightarrow> real \<Rightarrow> nat \<Rightarrow> nat \<Rightarrow> bool" where
  "trueEvent series low high hs i =
     (trueHypo series low hs i \<or> trueHyper series high hs i)"

subsection \<open>Baseline decision\<close>

definition baseHypoAlert :: "sample list \<Rightarrow> real \<Rightarrow> real \<Rightarrow> nat \<Rightarrow> bool" where
  "baseHypoAlert series low horizonMin i =
     (let proj = projectedBg series horizonMin i in bg (series ! i) < low \<or> proj < low)"

definition baseHyperAlert :: "sample list \<Rightarrow> real \<Rightarrow> real \<Rightarrow> nat \<Rightarrow> bool" where
  "baseHyperAlert series high horizonMin i =
     (let proj = projectedBg series horizonMin i in high < bg (series ! i) \<or> high < proj)"

definition baseAlert :: "sample list \<Rightarrow> real \<Rightarrow> real \<Rightarrow> real \<Rightarrow> nat \<Rightarrow> bool" where
  "baseAlert series low high horizonMin i =
     (baseHypoAlert series low horizonMin i \<or> baseHyperAlert series high horizonMin i)"

subsection \<open>Improved decision\<close>

definition smoothBg :: "sample list \<Rightarrow> nat \<Rightarrow> real" where
  "smoothBg series i =
     (let s1 = bg (series ! i); s2 = bg (series ! (i - 1)); s3 = bg (series ! (i - 2))
      in (s1 + s2 + s3) / 3)"

definition smoothProj :: "sample list \<Rightarrow> real \<Rightarrow> nat \<Rightarrow> real" where
  "smoothProj series horizonMin i =
     (let m = slopePerMin series i 6 in smoothBg series i + m * horizonMin)"

definition rawRisk :: "sample list \<Rightarrow> real \<Rightarrow> real \<Rightarrow> real \<Rightarrow> nat \<Rightarrow> risk" where
  "rawRisk series low high horizonMin i =
     (let rawHypo = (smoothBg series i < low \<or> smoothProj series horizonMin i < low);
          rawHyper = (high < smoothBg series i \<or> high < smoothProj series horizonMin i)
      in if rawHypo then HYPO else if rawHyper then HYPER else NONE)"

definition improvedStep ::
  "real \<Rightarrow> real \<Rightarrow> risk \<Rightarrow> real \<Rightarrow> real \<Rightarrow> policy_state \<Rightarrow> bool \<times> policy_state" where
  \<comment> \<open>Persistence, cooldown, trigger and hysteresis of one iteration: the alert of the
      iteration (\<open>impAlert\<close>) and the state it leaves.\<close>
  "improvedStep low high risk nowMs proj st =
     (let hypoExit = low + 5;
          hyperExit = high - 10;
          persist1 = (if risk \<noteq> NONE
                      then (if risk = active st then persist st + 1 else persist st + 1)
                      else 0);
          inCooldown = (nowMs < cooldownUntilMs st);
          impAlert = (\<not> inCooldown \<and> risk \<noteq> NONE \<and> 2 \<le> persist1);
          active1 = (if impAlert then risk else active st);
          cooldown1 = (if impAlert then nowMs + 60 * 60000 else cooldownUntilMs st);
          active2 = (if active1 = HYPO \<and> hypoExit < proj then NONE else active1);
          active3 = (if active2 = HYPER \<and> proj < hyperExit then NONE else active2)
      in (impAlert, \<lparr>active = active3, persist = persist1, cooldownUntilMs = cooldown1\<rparr>))"

subsection \<open>The loop\<close>

definition tally :: "bool \<Rightarrow> bool \<Rightarrow> counts \<Rightarrow> counts" where
  \<comment> \<open>The three counting statements, the same for both policies.\<close>
  "tally alert event c =
     (let c1 = (if alert \<and> event then c\<lparr>TP := TP c + 1\<rparr> else c);
          c2 = (if alert \<and> \<not> event then c1\<lparr>FP := FP c1 + 1\<rparr> else c1)
      in if \<not> alert \<and> event then c2\<lparr>FN := FN c2 + 1\<rparr> else c2)"

definition loopBody ::
  "sample list \<Rightarrow> real \<Rightarrow> real \<Rightarrow> real \<Rightarrow> nat \<Rightarrow> nat \<Rightarrow> loop_state \<Rightarrow> loop_state" where
  "loopBody series low high horizonMin hs i st =
     (let now = series ! i;
          event = trueEvent series low high hs i;
          base1 = tally (baseAlert series low high horizonMin i) event (baseCounts st);
          (impAlert, policy1) =
             improvedStep low high (rawRisk series low high horizonMin i) (tMs now)
               (smoothProj series horizonMin i) (policy st);
          impTrueEvent = event;
          imp1 = tally impAlert impTrueEvent (impCounts st)
      in \<lparr>baseCounts = base1, impCounts = imp1, policy = policy1\<rparr>)"

function forLoop :: "(nat \<Rightarrow> 's \<Rightarrow> 's) \<Rightarrow> nat \<Rightarrow> nat \<Rightarrow> 's \<Rightarrow> 's" where
  \<comment> \<open>\<open>for (let i = i0; i < n; i++) body\<close>\<close>
  "forLoop body i n st = (if i < n then forLoop body (Suc i) n (body i st) else st)"
  by pat_completeness auto
termination
  by (relation "measure (\<lambda>(body, i, n, st). n - i)") auto

declare forLoop.simps [simp del]

definition initState :: loop_state where
  "initState =
     \<lparr>baseCounts = \<lparr>TP = 0, FP = 0, FN = 0\<rparr>,
      impCounts = \<lparr>TP = 0, FP = 0, FN = 0\<rparr>,
      policy = \<lparr>active = NONE, persist = 0, cooldownUntilMs = 0\<rparr>\<rparr>"

definition runLoop :: "sample list \<Rightarrow> real \<Rightarrow> real \<Rightarrow> real \<Rightarrow> loop_state" where
  \<comment> \<open>\<open>for (let i = 10; i < series.length - horizonSteps; i++)\<close>. With \<open>horizonSteps\<close>
      \<open>Infinity\<close> or \<open>NaN\<close> the comparison is false at \<open>i = 10\<close>: the body never runs.\<close>
  "runLoop series low high horizonMin =
     (case horizonSteps series horizonMin of
        None \<Rightarrow> initState
      | Some hs \<Rightarrow>
          forLoop (loopBody series low high horizonMin hs) 10
            (nat (int (length series) - int hs)) initState)"

definition precision :: "nat \<Rightarrow> nat \<Rightarrow> real" where
  "precision tp fp = (let denom = tp + fp in if denom \<noteq> 0 then real tp / real denom else 0)"

definition recall :: "nat \<Rightarrow> nat \<Rightarrow> real" where
  "recall tp fn = (let denom = tp + fn in if denom \<noteq> 0 then real tp / real denom else 0)"

definition mkReport :: "loop_state \<Rightarrow> report" where
  "mkReport st =
     (let b = baseCounts st; m = impCounts st;
          fpReduction = (if FP b \<noteq> 0 then ((real (FP b) - real (FP m)) / real (FP b)) * 100 else 0)
      in \<lparr>baseline = \<lparr>TP = TP b, FP = FP b, FN = FN b,
                       precisionOf = precision (TP b) (FP b), recallOf = recall (TP b) (FN b)\<rparr>,
          improved = \<lparr>TP = TP m, FP = FP m, FN = FN m,
                       precisionOf = precision (TP m) (FP m), recallOf = recall (TP m) (FN m)\<rparr>,
          fpReductionPct = fpReduction\<rparr>)"

definition backtest :: "sample list \<Rightarrow> real \<Rightarrow> real \<Rightarrow> real \<Rightarrow> report option" where
  \<comment> \<open>\<open>None\<close> is the \<open>null\<close> the source returns. The trace is an array here: the \<open>!series\<close>
      of the guard is about a missing one.\<close>
  "backtest series low high horizonMin =
     (if length series < 20 then None
      else Some (mkReport (runLoop series low high horizonMin)))"

subsection \<open>What one run does at each index\<close>

text \<open>
  The source keeps no log of its decisions. The state in which the loop enters index
  \<open>i\<close> is the loop run from 10 up to \<open>i\<close>; the alert of the improved policy at \<open>i\<close> is
  the \<open>impAlert\<close> the body computes from that state.
\<close>

definition stateBefore ::
  "sample list \<Rightarrow> real \<Rightarrow> real \<Rightarrow> real \<Rightarrow> nat \<Rightarrow> nat \<Rightarrow> loop_state" where
  "stateBefore series low high horizonMin hs i =
     forLoop (loopBody series low high horizonMin hs) 10 i initState"

definition impAlertAt :: "sample list \<Rightarrow> real \<Rightarrow> real \<Rightarrow> real \<Rightarrow> nat \<Rightarrow> nat \<Rightarrow> bool" where
  "impAlertAt series low high horizonMin hs i =
     fst (improvedStep low high (rawRisk series low high horizonMin i) (tMs (series ! i))
            (smoothProj series horizonMin i) (policy (stateBefore series low high horizonMin hs i)))"

definition evaluated :: "sample list \<Rightarrow> real \<Rightarrow> nat \<Rightarrow> bool" where
  \<comment> \<open>The indices at which the loop runs its body.\<close>
  "evaluated series horizonMin i =
     (case horizonSteps series horizonMin of
        None \<Rightarrow> False
      | Some hs \<Rightarrow> 10 \<le> i \<and> int i < int (length series) - int hs)"

abbreviation cooldownAt :: "sample list \<Rightarrow> real \<Rightarrow> real \<Rightarrow> real \<Rightarrow> nat \<Rightarrow> nat \<Rightarrow> real" where
  "cooldownAt series low high horizonMin hs i \<equiv>
     cooldownUntilMs (policy (stateBefore series low high horizonMin hs i))"

abbreviation persistAt :: "sample list \<Rightarrow> real \<Rightarrow> real \<Rightarrow> real \<Rightarrow> nat \<Rightarrow> nat \<Rightarrow> nat" where
  "persistAt series low high horizonMin hs i \<equiv>
     persist (policy (stateBefore series low high horizonMin hs i))"

subsection \<open>The baseline rule as the specification words it\<close>

definition specSlope :: "sample list \<Rightarrow> nat \<Rightarrow> real" where
  \<comment> \<open>Endpoints of the trailing window of 6 samples, its start clamped to index 0; a flat
      slope when no time has passed.\<close>
  "specSlope series i =
     (let start = nat (max 0 (int i - 5));
          elapsedMinutes = (tMs (series ! i) - tMs (series ! start)) / 60000
      in if elapsedMinutes \<le> 0 then 0
         else (bg (series ! i) - bg (series ! start)) / elapsedMinutes)"

definition specProjected :: "sample list \<Rightarrow> real \<Rightarrow> nat \<Rightarrow> real" where
  "specProjected series horizonMinutes i = bg (series ! i) + specSlope series i * horizonMinutes"

definition specHypo :: "sample list \<Rightarrow> real \<Rightarrow> real \<Rightarrow> nat \<Rightarrow> bool" where
  "specHypo series low horizonMinutes i =
     (bg (series ! i) < low \<or> specProjected series horizonMinutes i < low)"

definition specHyper :: "sample list \<Rightarrow> real \<Rightarrow> real \<Rightarrow> nat \<Rightarrow> bool" where
  "specHyper series high horizonMinutes i =
     (high < bg (series ! i) \<or> high < specProjected series horizonMinutes i)"

section \<open>Synthetic test set generator\<close>

text \<open>
  \<open>Math.random()\<close> is the sequence \<open>rnd\<close> of the numbers it returns, read through a
  counter of the calls made so far; \<open>Date.now()\<close> is \<open>nowMs\<close>. \<open>days\<close> and \<open>approxPoints\<close>
  are integers.
\<close>

definition randn :: "(nat \<Rightarrow> real) \<Rightarrow> nat \<Rightarrow> real" where
  \<comment> \<open>Box-Muller; it draws twice.\<close>
  "randn rnd c =
     (let u = max (1 / 10 ^ 9) (rnd c);
          v = max (1 / 10 ^ 9) (rnd (c + 1))
      in sqrt (- 2 * ln u) * cos (2 * pi * v))"

definition mealTimesOf :: "(nat \<Rightarrow> real) \<Rightarrow> int \<Rightarrow> int list" where
  \<comment> \<open>The meal schedule: three draws for each day \<open>d\<close> from 0 below \<open>days\<close>.\<close>
  "mealTimesOf rnd days =
     concat (map (\<lambda>d. let dayStart = int d * 24 * 60
                       in [dayStart + 8 * 60 + jsRound ((rnd (3 * d) - 0.5) * 45),
                           dayStart + 13 * 60 + jsRound ((rnd (3 * d + 1) - 0.5) * 60),
                           dayStart + 19 * 60 + jsRound ((rnd (3 * d + 2) - 0.5) * 60)])
                 [0..<nat days])"

definition mealSugarOf :: "(nat \<Rightarrow> real) \<Rightarrow> nat \<Rightarrow> nat \<Rightarrow> int list" where
  \<comment> \<open>One draw for each meal, from call \<open>c\<close> on.\<close>
  "mealSugarOf rnd c n = map (\<lambda>i. 20 + jsRound (rnd (c + i) * 60)) [0..<n]"

definition mealDeltaAtMinute :: "int list \<Rightarrow> int list \<Rightarrow> int \<Rightarrow> real" where
  "mealDeltaAtMinute mealTimes mealSugar minute =
     (let mgdlPerGram = 1.4; peakMin = 45
      in fold (\<lambda>i total.
                 let dt = minute - mealTimes ! i
                 in if dt < 0 then total
                    else total + absorptionDelta (real_of_int (mealSugar ! i) * mgdlPerGram)
                                   (real_of_int dt) peakMin)
           [0..<length mealTimes] 0)"

definition eventsOf :: "(nat \<Rightarrow> real) \<Rightarrow> nat \<Rightarrow> nat \<Rightarrow> int \<Rightarrow> int list" where
  \<comment> \<open>\<open>n\<close> event minutes, one draw each, from call \<open>c\<close> on.\<close>
  "eventsOf rnd c n totalMinutes =
     map (\<lambda>i. jsRound (rnd (c + i) * real_of_int totalMinutes)) [0..<n]"

definition eventDeltaAtMinute :: "int list \<Rightarrow> int list \<Rightarrow> int \<Rightarrow> real" where
  "eventDeltaAtMinute hypoEvents hyperEvents minute =
     (let delta1 =
            fold (\<lambda>t0 delta.
                    let dt = real_of_int (minute - t0); sigma = 35
                    in delta + - 35 * exp (- (dt * dt) / (2 * sigma * sigma)))
              hypoEvents 0
      in fold (\<lambda>t0 delta.
                 let dt = real_of_int (minute - t0); sigma = 50
                 in delta + 55 * exp (- (dt * dt) / (2 * sigma * sigma)))
           hyperEvents delta1)"

definition samplePoint ::
  "(nat \<Rightarrow> real) \<Rightarrow> real \<Rightarrow> int list \<Rightarrow> int list \<Rightarrow> int list \<Rightarrow> int list \<Rightarrow> int \<Rightarrow> nat \<Rightarrow> sample"
  where
  \<comment> \<open>The body of the sampling loop at minute \<open>m\<close>, \<open>c\<close> draws made so far.\<close>
  "samplePoint rnd startMs mealTimes mealSugar hypoEvents hyperEvents m c =
     (let base = 115; noiseSd = 8; dailyAmp = 12;
          t = startMs + real_of_int m * 60 * 1000;
          dayPhase = real_of_int (m mod (24 * 60)) / (24 * 60) * 2 * pi;
          daily = dailyAmp * sin (dayPhase - 0.8);
          meal = mealDeltaAtMinute mealTimes mealSugar m;
          events = eventDeltaAtMinute hypoEvents hyperEvents m;
          noise = noiseSd * randn rnd c;
          v = base + daily + meal + events + noise
      in \<lparr>tMs = t, bg = max 40 (min 400 v)\<rparr>)"

function sampleLoop ::
  "(nat \<Rightarrow> real) \<Rightarrow> real \<Rightarrow> int list \<Rightarrow> int list \<Rightarrow> int list \<Rightarrow> int list \<Rightarrow> int \<Rightarrow> int
     \<Rightarrow> int \<Rightarrow> nat \<Rightarrow> sample list" where
  \<comment> \<open>\<open>for (let m = 0; m <= totalMinutes; m += stepMin)\<close>, where \<open>stepMin\<close> is
      \<open>Math.max(5, r)\<close> and \<open>r\<close> the rounded quotient.\<close>
  "sampleLoop rnd startMs mealTimes mealSugar hypoEvents hyperEvents totalMinutes r m c =
     (let stepMin = max 5 r
      in if m \<le> totalMinutes
         then samplePoint rnd startMs mealTimes mealSugar hypoEvents hyperEvents m c
                # sampleLoop rnd startMs mealTimes mealSugar hypoEvents hyperEvents totalMinutes r
                    (m + stepMin) (c + 2)
         else [])"
  by pat_completeness auto
termination
  by (relation "measure (\<lambda>(rnd, s, mt, ms, ho, hr, total, r, m, c). nat (total - m + 1))") auto

declare sampleLoop.simps [simp del]

definition generateSyntheticSeries :: "(nat \<Rightarrow> real) \<Rightarrow> real \<Rightarrow> int \<Rightarrow> int \<Rightarrow> sample list" where
  \<comment> \<open>With \<open>approxPoints = 0\<close> the quotient is \<open>Infinity\<close> or \<open>NaN\<close> when \<open>totalMinutes\<close> is
      not negative: \<open>stepMin\<close> is the same, the loop runs its body once at \<open>m = 0\<close> and the
      next comparison is false. When \<open>totalMinutes\<close> is negative the body never runs.\<close>
  "generateSyntheticSeries rnd nowMs days approxPoints =
     (let totalMinutes = days * 24 * 60;
          mealTimes = mealTimesOf rnd days;
          c1 = length mealTimes;
          mealSugar = mealSugarOf rnd c1 (length mealTimes);
          c2 = c1 + length mealTimes;
          numHypo = nat (max 1 (jsRound (real_of_int days / 18)));
          numHyper = nat (max 1 (jsRound (real_of_int days / 12)));
          hypoEvents = eventsOf rnd c2 numHypo totalMinutes;
          hyperEvents = eventsOf rnd (c2 + numHypo) numHyper totalMinutes;
          c3 = c2 + numHypo + numHyper;
          startMs = nowMs - real_of_int days * 24 * 60 * 60 * 1000
      in if approxPoints = 0
         then (if 0 \<le> totalMinutes
               then [samplePoint rnd startMs mealTimes mealSugar hypoEvents hyperEvents 0 c3]
               else [])
         else sampleLoop rnd startMs mealTimes mealSugar hypoEvents hyperEvents totalMinutes
                (jsRound (real_of_int totalMinutes / real_of_int approxPoints)) 0 c3)"

section \<open>Traces used as examples\<close>

definition riskTrace :: "sample list" where
  \<comment> \<open>20 samples, 30 minutes apart, all at 60 mg/dL.\<close>
  "riskTrace = map (\<lambda>k. \<lparr>tMs = 1800000 * real k, bg = 60\<rparr>) [0..<20]"

definition halfRnd :: "nat \<Rightarrow> real" where
  "halfRnd c = 1 / 2"

section \<open>The loop, index by index\<close>

lemma forLoop_stop: "n \<le> i \<Longrightarrow> forLoop body i n st = st"
  by (simp add: forLoop.simps)

lemma forLoop_snoc: "i \<le> n \<Longrightarrow> forLoop body i (Suc n) st = body n (forLoop body i n st)"
proof (induction body i n st rule: forLoop.induct)
  case (1 body i n st)
  show ?case
  proof (cases "i < n")
    case True
    then have "forLoop body i (Suc n) st = forLoop body (Suc i) (Suc n) (body i st)"
      by (simp add: forLoop.simps [of body i])
    also have "\<dots> = body n (forLoop body (Suc i) n (body i st))"
      using True "1.IH" by simp
    also have "forLoop body (Suc i) n (body i st) = forLoop body i n st"
      using True by (simp add: forLoop.simps [of body i])
    finally show ?thesis .
  next
    case False
    with "1.prems" have "i = n" by simp
    then show ?thesis
      by (simp add: forLoop.simps [of body n] forLoop_stop)
  qed
qed

lemma forLoop_fold: "forLoop body i n st = fold body [i..<n] st"
proof (induction body i n st rule: forLoop.induct)
  case (1 body i n st)
  show ?case
  proof (cases "i < n")
    case True
    with "1.IH" show ?thesis
      by (simp add: forLoop.simps [of body i] upt_conv_Cons)
  next
    case False
    then show ?thesis by (simp add: forLoop_stop)
  qed
qed

lemma stateBefore_10: "stateBefore series low high horizonMin hs 10 = initState"
  by (simp add: stateBefore_def forLoop_stop)

lemma stateBefore_Suc:
  "10 \<le> i \<Longrightarrow> stateBefore series low high horizonMin hs (Suc i) =
     loopBody series low high horizonMin hs i (stateBefore series low high horizonMin hs i)"
  by (simp add: stateBefore_def forLoop_snoc)

lemma policy_loopBody:
  "policy (loopBody series low high horizonMin hs i st) =
     snd (improvedStep low high (rawRisk series low high horizonMin i) (tMs (series ! i))
            (smoothProj series horizonMin i) (policy st))"
  by (simp add: loopBody_def Let_def split: prod.splits)

lemma improvedStep_persist:
  "persist (snd (improvedStep low high r t p st)) = (if r = NONE then 0 else persist st + 1)"
  by (simp add: improvedStep_def Let_def)

lemma improvedStep_cooldown:
  "cooldownUntilMs (snd (improvedStep low high r t p st)) =
     (if fst (improvedStep low high r t p st) then t + 3600000 else cooldownUntilMs st)"
  by (simp add: improvedStep_def Let_def)

lemma improvedStep_fire:
  "fst (improvedStep low high r t p st) \<longleftrightarrow>
     \<not> t < cooldownUntilMs st \<and> r \<noteq> NONE \<and> 1 \<le> persist st"
  by (auto simp add: improvedStep_def Let_def)


lemma persistAt_Suc:
  assumes "10 \<le> i"
  shows "persistAt series low high horizonMin hs (Suc i) =
     (if rawRisk series low high horizonMin i = NONE then 0
      else persistAt series low high horizonMin hs i + 1)"
  using assms by (simp add: stateBefore_Suc policy_loopBody improvedStep_persist)

lemma cooldownAt_Suc:
  assumes "10 \<le> i"
  shows "cooldownAt series low high horizonMin hs (Suc i) =
     (if impAlertAt series low high horizonMin hs i then tMs (series ! i) + 3600000
      else cooldownAt series low high horizonMin hs i)"
  using assms
  by (simp add: stateBefore_Suc policy_loopBody improvedStep_cooldown impAlertAt_def)

lemma impAlertAt_iff:
  "impAlertAt series low high horizonMin hs i \<longleftrightarrow>
     \<not> tMs (series ! i) < cooldownAt series low high horizonMin hs i
     \<and> rawRisk series low high horizonMin i \<noteq> NONE
     \<and> 1 \<le> persistAt series low high horizonMin hs i"
  by (simp add: impAlertAt_def improvedStep_fire)

lemma cooldownAt_Suc_ge:
  assumes "10 \<le> i"
  shows "cooldownAt series low high horizonMin hs i
           \<le> cooldownAt series low high horizonMin hs (Suc i)"
proof (cases "impAlertAt series low high horizonMin hs i")
  case True
  then have "cooldownAt series low high horizonMin hs i \<le> tMs (series ! i)"
    by (simp add: impAlertAt_iff)
  with True assms show ?thesis by (simp add: cooldownAt_Suc)
next
  case False
  with assms show ?thesis by (simp add: cooldownAt_Suc)
qed

lemma cooldownAt_mono:
  assumes "10 \<le> i" "i \<le> j"
  shows "cooldownAt series low high horizonMin hs i \<le> cooldownAt series low high horizonMin hs j"
  using assms(2,1)
proof (induction j rule: dec_induct)
  case base
  show ?case by simp
next
  case (step n)
  then have "10 \<le> n" by simp
  from cooldownAt_Suc_ge [OF this] step show ?case
    by (meson order_trans)
qed

text \<open>
  Claim C1 (monotonic cooldown). When the improved policy fires at an evaluated index
  \<open>i\<close>, it fires at no later evaluated index \<open>j\<close> whose timestamp is less than that of
  \<open>i\<close> plus 60 minutes, whatever the raw risk is there.
\<close>

theorem improved_cooldown:
  assumes "horizonSteps series horizonMin = Some hs"
    and "evaluated series horizonMin i" and "evaluated series horizonMin j"
    and "i < j"
    and "impAlertAt series low high horizonMin hs i"
    and "tMs (series ! j) < tMs (series ! i) + 60 * 60000"
  shows "\<not> impAlertAt series low high horizonMin hs j"
proof -
  from assms(1,2) have i10: "10 \<le> i" by (simp add: evaluated_def)
  with assms(5) have "cooldownAt series low high horizonMin hs (Suc i) = tMs (series ! i) + 3600000"
    by (simp add: cooldownAt_Suc)
  moreover have "cooldownAt series low high horizonMin hs (Suc i)
                   \<le> cooldownAt series low high horizonMin hs j"
    using i10 assms(4) by (intro cooldownAt_mono) simp_all
  ultimately have "tMs (series ! j) < cooldownAt series low high horizonMin hs j"
    using assms(6) by simp
  then show ?thesis by (simp add: impAlertAt_iff)
qed

text \<open>
  Claim C2 (persistence gate). The counter starts at 0, is one more after each step with
  a raw risk and 0 after each step without one. An alert of the improved policy needs a raw
  risk at its step and a counter of at least 2 after it; so it never comes at index 10, the
  first one evaluated, nor at a step whose predecessor had no raw risk, nor in a run without
  any raw risk.
\<close>

theorem persistence_gate:
  assumes "horizonSteps series horizonMin = Some hs"
    and "evaluated series horizonMin i"
  shows "persistAt series low high horizonMin hs 10 = 0
         \<and> persistAt series low high horizonMin hs (Suc i) =
             (if rawRisk series low high horizonMin i = NONE then 0
              else persistAt series low high horizonMin hs i + 1)
         \<and> (impAlertAt series low high horizonMin hs i \<longrightarrow>
              rawRisk series low high horizonMin i \<noteq> NONE
              \<and> 2 \<le> persistAt series low high horizonMin hs (Suc i)
              \<and> i \<noteq> 10 \<and> rawRisk series low high horizonMin (i - 1) \<noteq> NONE)"
proof -
  from assms have i10: "10 \<le> i" by (simp add: evaluated_def)
  have p0: "persistAt series low high horizonMin hs 10 = 0"
    by (simp add: stateBefore_10 initState_def)
  have step: "persistAt series low high horizonMin hs (Suc i) =
           (if rawRisk series low high horizonMin i = NONE then 0
            else persistAt series low high horizonMin hs i + 1)"
    using i10 by (rule persistAt_Suc)
  have gate: "rawRisk series low high horizonMin i \<noteq> NONE
           \<and> 2 \<le> persistAt series low high horizonMin hs (Suc i)
           \<and> i \<noteq> 10 \<and> rawRisk series low high horizonMin (i - 1) \<noteq> NONE"
    if fire: "impAlertAt series low high horizonMin hs i"
  proof -
    from fire have r: "rawRisk series low high horizonMin i \<noteq> NONE"
      and p: "1 \<le> persistAt series low high horizonMin hs i"
      by (simp_all add: impAlertAt_iff)
    from p p0 have ne: "i \<noteq> 10" by auto
    with i10 obtain k where k: "i = Suc k" "10 \<le> k" by (cases i) auto
    from p k have "rawRisk series low high horizonMin k \<noteq> NONE"
      by (auto simp add: persistAt_Suc split: if_splits)
    with r p ne k i10 show ?thesis
      by (simp add: persistAt_Suc)
  qed
  from p0 step gate show ?thesis by blast
qed

text \<open>
  Claim C10 (firing again after the cooldown). An alert leaves the counter one higher, not
  reset. When the policy fires at \<open>i\<close>, the raw risk stays until \<open>j\<close>, and \<open>j\<close> is the first
  evaluated index after \<open>i\<close> whose timestamp is at least that of \<open>i\<close> plus 60 minutes
  (equality included: the comparison with the end of the cooldown is strict), the policy is
  silent between the two and fires at \<open>j\<close>.
\<close>

theorem refire_after_cooldown:
  assumes "horizonSteps series horizonMin = Some hs"
    and "evaluated series horizonMin i" and "evaluated series horizonMin j"
    and "i < j"
    and "impAlertAt series low high horizonMin hs i"
    and "\<forall>k. i < k \<and> k \<le> j \<longrightarrow> rawRisk series low high horizonMin k \<noteq> NONE"
    and "\<forall>k. i < k \<and> k < j \<longrightarrow> tMs (series ! k) < tMs (series ! i) + 60 * 60000"
    and "tMs (series ! i) + 60 * 60000 \<le> tMs (series ! j)"
  shows "persistAt series low high horizonMin hs (Suc i)
           = persistAt series low high horizonMin hs i + 1
         \<and> (\<forall>k. i < k \<and> k < j \<longrightarrow> \<not> impAlertAt series low high horizonMin hs k)
         \<and> impAlertAt series low high horizonMin hs j"
proof -
  from assms(1,2) have i10: "10 \<le> i" by (simp add: evaluated_def)
  from assms(5) have ri: "rawRisk series low high horizonMin i \<noteq> NONE"
    and pi: "1 \<le> persistAt series low high horizonMin hs i"
    by (simp_all add: impAlertAt_iff)
  have keep: "persistAt series low high horizonMin hs (Suc i)
           = persistAt series low high horizonMin hs i + 1"
    using i10 ri by (simp add: persistAt_Suc)
  have inv: "cooldownAt series low high horizonMin hs k = tMs (series ! i) + 3600000
        \<and> 2 \<le> persistAt series low high horizonMin hs k"
    if "Suc i \<le> k" "k \<le> j" for k
    using that
  proof (induction k rule: dec_induct)
    case base
    with i10 assms(5) keep pi show ?case by (simp add: cooldownAt_Suc)
  next
    case (step n)
    then have n: "i < n" "n < j" "10 \<le> n" using i10 by simp_all
    from step n have ih: "cooldownAt series low high horizonMin hs n = tMs (series ! i) + 3600000"
      "2 \<le> persistAt series low high horizonMin hs n" by simp_all
    from n assms(7) have "tMs (series ! n) < cooldownAt series low high horizonMin hs n"
      using ih(1) by simp
    then have nofire: "\<not> impAlertAt series low high horizonMin hs n"
      by (simp add: impAlertAt_iff)
    from n assms(6) have "rawRisk series low high horizonMin n \<noteq> NONE" by simp
    with nofire ih n show ?case by (simp add: cooldownAt_Suc persistAt_Suc)
  qed
  have quiet: "\<forall>k. i < k \<and> k < j \<longrightarrow> \<not> impAlertAt series low high horizonMin hs k"
  proof (intro allI impI)
    fix k assume k: "i < k \<and> k < j"
    then have "cooldownAt series low high horizonMin hs k = tMs (series ! i) + 3600000"
      using inv [of k] by simp
    with k assms(7) show "\<not> impAlertAt series low high horizonMin hs k"
      by (simp add: impAlertAt_iff)
  qed
  from inv [of j] assms(4) have "cooldownAt series low high horizonMin hs j = tMs (series ! i) + 3600000"
    and "2 \<le> persistAt series low high horizonMin hs j" by simp_all
  moreover from assms(4,6) have "rawRisk series low high horizonMin j \<noteq> NONE" by simp
  ultimately have "impAlertAt series low high horizonMin hs j"
    using assms(8) by (simp add: impAlertAt_iff)
  with keep quiet show ?thesis by simp
qed

lemma riskTrace_length: "length riskTrace = 20"
  by (simp add: riskTrace_def)

lemma riskTrace_nth: "k < 20 \<Longrightarrow> riskTrace ! k = \<lparr>tMs = 1800000 * real k, bg = 60\<rparr>"
  by (simp add: riskTrace_def)

lemma riskTrace_steps: "horizonSteps riskTrace 60 = Some 2"
  by (simp add: horizonSteps_def stepMinOf_def riskTrace_nth jsRound_def)

lemma riskTrace_evaluated: "evaluated riskTrace 60 i \<longleftrightarrow> 10 \<le> i \<and> i < 18"
  by (auto simp add: evaluated_def riskTrace_steps riskTrace_length)

lemma riskTrace_risk:
  assumes "2 \<le> k" "k < 20"
  shows "rawRisk riskTrace 70 180 60 k = HYPO"
  using assms by (simp add: rawRisk_def smoothBg_def riskTrace_nth)

lemma riskTrace_persist_10: "persistAt riskTrace 70 180 60 2 10 = 0"
  by (simp add: stateBefore_10 initState_def)

lemma riskTrace_cooldown_10: "cooldownAt riskTrace 70 180 60 2 10 = 0"
  by (simp add: stateBefore_10 initState_def)

lemma riskTrace_quiet_10: "\<not> impAlertAt riskTrace 70 180 60 2 10"
  by (simp add: impAlertAt_iff riskTrace_persist_10)

lemma riskTrace_persist_11: "persistAt riskTrace 70 180 60 2 11 = 1"
  using persistAt_Suc [of 10 riskTrace 70 180 60 2]
  by (simp add: riskTrace_persist_10 riskTrace_risk)

lemma riskTrace_cooldown_11: "cooldownAt riskTrace 70 180 60 2 11 = 0"
  using cooldownAt_Suc [of 10 riskTrace 70 180 60 2]
  by (simp add: riskTrace_quiet_10 riskTrace_cooldown_10)

lemma riskTrace_fires_11: "impAlertAt riskTrace 70 180 60 2 11"
  by (simp add: impAlertAt_iff riskTrace_persist_11 riskTrace_cooldown_11 riskTrace_risk
      riskTrace_nth)

text \<open>
  The hypotheses of claim C1 hold on the example trace: every sample is low, the policy
  fires at index 11, is silent at 12 and fires again at 13, exactly 60 minutes later.
\<close>

theorem improved_cooldown_witness:
  "horizonSteps riskTrace 60 = Some 2
   \<and> evaluated riskTrace 60 11 \<and> evaluated riskTrace 60 12 \<and> (11::nat) < 12
   \<and> impAlertAt riskTrace 70 180 60 2 11
   \<and> tMs (riskTrace ! 12) < tMs (riskTrace ! 11) + 60 * 60000
   \<and> rawRisk riskTrace 70 180 60 12 \<noteq> NONE
   \<and> \<not> impAlertAt riskTrace 70 180 60 2 12"
proof -
  have e: "evaluated riskTrace 60 11" "evaluated riskTrace 60 12"
    by (simp_all add: riskTrace_evaluated)
  have t: "tMs (riskTrace ! 12) < tMs (riskTrace ! 11) + 60 * 60000"
    by (simp add: riskTrace_nth)
  have "\<not> impAlertAt riskTrace 70 180 60 2 12"
    using improved_cooldown [OF riskTrace_steps e _ riskTrace_fires_11 t] by simp
  with e t show ?thesis
    by (simp add: riskTrace_steps riskTrace_fires_11 riskTrace_risk)
qed

text \<open>
  The hypotheses of claim C10 hold on the example trace: every sample is low, the policy
  fires at index 11, is silent at 12 and fires again at 13, exactly 60 minutes later.
\<close>

theorem refire_after_cooldown_witness:
  "horizonSteps riskTrace 60 = Some 2
   \<and> evaluated riskTrace 60 11 \<and> evaluated riskTrace 60 13 \<and> (11::nat) < 13
   \<and> impAlertAt riskTrace 70 180 60 2 11
   \<and> rawRisk riskTrace 70 180 60 12 \<noteq> NONE \<and> rawRisk riskTrace 70 180 60 13 \<noteq> NONE
   \<and> tMs (riskTrace ! 12) < tMs (riskTrace ! 11) + 60 * 60000
   \<and> tMs (riskTrace ! 11) + 60 * 60000 = tMs (riskTrace ! 13)
   \<and> persistAt riskTrace 70 180 60 2 12 = 2
   \<and> \<not> impAlertAt riskTrace 70 180 60 2 12
   \<and> impAlertAt riskTrace 70 180 60 2 13"
proof -
  have e: "evaluated riskTrace 60 11" "evaluated riskTrace 60 13"
    by (simp_all add: riskTrace_evaluated)
  have r: "\<forall>k. 11 < k \<and> k \<le> 13 \<longrightarrow> rawRisk riskTrace 70 180 60 k \<noteq> NONE"
    by (simp add: riskTrace_risk)
  have q: "\<forall>k. 11 < k \<and> k < 13 \<longrightarrow> tMs (riskTrace ! k) < tMs (riskTrace ! 11) + 60 * 60000"
    by (simp add: riskTrace_nth)
  have t: "tMs (riskTrace ! 11) + 60 * 60000 = tMs (riskTrace ! 13)"
    by (simp add: riskTrace_nth)
  then have t': "tMs (riskTrace ! 11) + 60 * 60000 \<le> tMs (riskTrace ! 13)" by simp
  have "persistAt riskTrace 70 180 60 2 (Suc 11) = persistAt riskTrace 70 180 60 2 11 + 1
         \<and> (\<forall>k. 11 < k \<and> k < 13 \<longrightarrow> \<not> impAlertAt riskTrace 70 180 60 2 k)
         \<and> impAlertAt riskTrace 70 180 60 2 13"
    using refire_after_cooldown [OF riskTrace_steps e _ riskTrace_fires_11 r q t'] by simp
  then have "persistAt riskTrace 70 180 60 2 12 = 2" "\<not> impAlertAt riskTrace 70 180 60 2 12"
    "impAlertAt riskTrace 70 180 60 2 13"
    by (simp_all add: riskTrace_persist_11)
  with e t show ?thesis
    by (simp add: riskTrace_steps riskTrace_fires_11 riskTrace_risk riskTrace_nth)
qed


text \<open>
  The hypotheses of claim C2 hold on the example trace: every sample is low, the policy
  fires at index 11, is silent at 12 and fires again at 13, exactly 60 minutes later.
\<close>

theorem persistence_gate_witness:
  "horizonSteps riskTrace 60 = Some 2 \<and> evaluated riskTrace 60 11
   \<and> impAlertAt riskTrace 70 180 60 2 11
   \<and> persistAt riskTrace 70 180 60 2 10 = 0
   \<and> persistAt riskTrace 70 180 60 2 11 = 1
   \<and> persistAt riskTrace 70 180 60 2 12 = 2
   \<and> rawRisk riskTrace 70 180 60 10 \<noteq> NONE
   \<and> \<not> impAlertAt riskTrace 70 180 60 2 10"
proof -
  have e: "evaluated riskTrace 60 11" by (simp add: riskTrace_evaluated)
  from persistence_gate [OF riskTrace_steps e, of 70 180] riskTrace_fires_11
  have "persistAt riskTrace 70 180 60 2 (Suc 11) = persistAt riskTrace 70 180 60 2 11 + 1"
    and "rawRisk riskTrace 70 180 60 (11 - 1) \<noteq> NONE"
    by (simp_all split: if_splits)
  then show ?thesis
    using e by (simp add: riskTrace_steps riskTrace_fires_11 riskTrace_persist_10
        riskTrace_persist_11 riskTrace_quiet_10)
qed

section \<open>Ground truth, baseline rule and report\<close>

lemma future_length: "i + hs < length series \<Longrightarrow> length (future series hs i) = hs"
  by (simp add: future_def)

lemma future_nth:
  "i + hs < length series \<Longrightarrow> k < hs \<Longrightarrow> future series hs i ! k = series ! (i + 1 + k)"
  by (simp add: future_def)

lemma future_ex:
  assumes "i + hs < length series"
  shows "list_ex P (future series hs i) \<longleftrightarrow> (\<exists>j. i + 1 \<le> j \<and> j \<le> i + hs \<and> P (series ! j))"
proof
  assume "list_ex P (future series hs i)"
  then obtain k where k: "k < hs" "P (future series hs i ! k)"
    using future_length [OF assms] by (auto simp add: list_ex_iff in_set_conv_nth)
  then have "P (series ! (i + 1 + k))" using future_nth [OF assms] by simp
  with k(1) show "\<exists>j. i + 1 \<le> j \<and> j \<le> i + hs \<and> P (series ! j)"
    by (intro exI [of _ "i + 1 + k"]) simp
next
  assume "\<exists>j. i + 1 \<le> j \<and> j \<le> i + hs \<and> P (series ! j)"
  then obtain j where j: "i + 1 \<le> j" "j \<le> i + hs" "P (series ! j)" by blast
  define k where "k = j - (i + 1)"
  with j have k: "k < hs" "j = i + 1 + k" by simp_all
  then have "P (future series hs i ! k)" using j(3) future_nth [OF assms] by simp
  moreover have "future series hs i ! k \<in> set (future series hs i)"
    using k(1) future_length [OF assms] by simp
  ultimately show "list_ex P (future series hs i)" by (auto simp add: list_ex_iff)
qed

lemma counts_loopBody:
  "baseCounts (loopBody series low high horizonMin hs i st) =
     tally (baseAlert series low high horizonMin i) (trueEvent series low high hs i) (baseCounts st)"
  "impCounts (loopBody series low high horizonMin hs i st) =
     tally (fst (improvedStep low high (rawRisk series low high horizonMin i) (tMs (series ! i))
                   (smoothProj series horizonMin i) (policy st)))
       (trueEvent series low high hs i) (impCounts st)"
  by (simp_all add: loopBody_def Let_def split: prod.splits)

text \<open>
  Claim C5 (ground truth). At an evaluated index \<open>i\<close>, \<open>trueHypo\<close> holds exactly when
  one of the samples \<open>i + 1\<close> to \<open>i + horizonSteps\<close> is below \<open>low\<close>, \<open>trueHyper\<close> exactly
  when one of them is above \<open>high\<close>, \<open>trueEvent\<close> is their disjunction, and one iteration
  counts the baseline alert and the improved alert against that same \<open>trueEvent\<close>.
\<close>

theorem future_truth_labels:
  assumes "horizonSteps series horizonMin = Some hs"
    and "evaluated series horizonMin i"
  shows "(trueHypo series low hs i \<longleftrightarrow>
            (\<exists>j. i + 1 \<le> j \<and> j \<le> i + hs \<and> bg (series ! j) < low))
         \<and> (trueHyper series high hs i \<longleftrightarrow>
            (\<exists>j. i + 1 \<le> j \<and> j \<le> i + hs \<and> high < bg (series ! j)))
         \<and> (trueEvent series low high hs i \<longleftrightarrow>
              trueHypo series low hs i \<or> trueHyper series high hs i)
         \<and> baseCounts (loopBody series low high horizonMin hs i st) =
             tally (baseAlert series low high horizonMin i) (trueEvent series low high hs i)
               (baseCounts st)
         \<and> impCounts (loopBody series low high horizonMin hs i st) =
             tally (fst (improvedStep low high (rawRisk series low high horizonMin i)
                           (tMs (series ! i)) (smoothProj series horizonMin i) (policy st)))
               (trueEvent series low high hs i) (impCounts st)"
proof -
  from assms have "i + hs < length series" by (simp add: evaluated_def)
  then show ?thesis
    by (simp add: trueHypo_def trueHyper_def trueEvent_def future_ex counts_loopBody)
qed

lemma specSlope_eq: "slopePerMin series i 6 = specSlope series i"
  by (simp add: slopePerMin_def specSlope_def Let_def)

text \<open>
  Claim C4 (baseline rule). The baseline decision of the source is the computation the
  specification words: the slope between the ends of the window starting at
  \<open>max(0, i - 5)\<close>, flat when no time has passed, projected over the horizon and compared,
  like the current value, with the two thresholds. The baseline counts of an iteration
  depend on the trace, the parameters and the index only, not on any state of the policy.
\<close>

theorem baseline_stateless:
  "baseHypoAlert series low horizonMin i = specHypo series low horizonMin i
   \<and> baseHyperAlert series high horizonMin i = specHyper series high horizonMin i
   \<and> baseAlert series low high horizonMin i =
       (specHypo series low horizonMin i \<or> specHyper series high horizonMin i)
   \<and> baseCounts (loopBody series low high horizonMin hs i st) =
       tally (specHypo series low horizonMin i \<or> specHyper series high horizonMin i)
         (trueEvent series low high hs i) (baseCounts st)"
  by (simp add: baseHypoAlert_def baseHyperAlert_def baseAlert_def projectedBg_def
      specHypo_def specHyper_def specProjected_def specSlope_eq counts_loopBody)

lemma precision_bounds: "0 \<le> precision tp fp \<and> precision tp fp \<le> 1"
  by (simp add: precision_def Let_def)

lemma recall_bounds: "0 \<le> recall tp fn \<and> recall tp fn \<le> 1"
  by (simp add: recall_def Let_def)

text \<open>
  Claim C7 (metrics). In every report, precision is \<open>TP / (TP + FP)\<close> and recall
  \<open>TP / (TP + FN)\<close>, each 0 when its denominator is 0 and each between 0 and 1; the
  false-positive reduction is \<open>(baselineFP - improvedFP) / baselineFP * 100\<close>, and 0 when
  \<open>baselineFP\<close> is 0.
\<close>

theorem report_metrics:
  assumes "backtest series low high horizonMin = Some r"
  shows "precisionOf (baseline r) =
           (if TP (baseline r) + FP (baseline r) = 0 then 0
            else real (TP (baseline r)) / real (TP (baseline r) + FP (baseline r)))
         \<and> recallOf (baseline r) =
           (if TP (baseline r) + FN (baseline r) = 0 then 0
            else real (TP (baseline r)) / real (TP (baseline r) + FN (baseline r)))
         \<and> precisionOf (improved r) =
           (if TP (improved r) + FP (improved r) = 0 then 0
            else real (TP (improved r)) / real (TP (improved r) + FP (improved r)))
         \<and> recallOf (improved r) =
           (if TP (improved r) + FN (improved r) = 0 then 0
            else real (TP (improved r)) / real (TP (improved r) + FN (improved r)))
         \<and> 0 \<le> precisionOf (baseline r) \<and> precisionOf (baseline r) \<le> 1
         \<and> 0 \<le> recallOf (baseline r) \<and> recallOf (baseline r) \<le> 1
         \<and> 0 \<le> precisionOf (improved r) \<and> precisionOf (improved r) \<le> 1
         \<and> 0 \<le> recallOf (improved r) \<and> recallOf (improved r) \<le> 1
         \<and> fpReductionPct r =
           (if FP (baseline r) = 0 then 0
            else (real (FP (baseline r)) - real (FP (improved r))) / real (FP (baseline r)) * 100)"
proof -
  from assms have r: "r = mkReport (runLoop series low high horizonMin)"
    by (simp add: backtest_def split: if_splits)
  show ?thesis
    unfolding r mkReport_def Let_def
    using precision_bounds recall_bounds
    by (simp add: precision_def recall_def Let_def)
qed


lemma riskTrace_event:
  assumes "10 \<le> i" "i < 18"
  shows "trueEvent riskTrace 70 180 2 i"
proof -
  from assms have "i + 2 < length riskTrace" by (simp add: riskTrace_length)
  moreover have "bg (riskTrace ! (i + 1)) < 70" using assms by (simp add: riskTrace_nth)
  ultimately have "trueHypo riskTrace 70 2 i"
    unfolding trueHypo_def by (subst future_ex) (auto intro: exI [of _ "i + 1"])
  then show ?thesis by (simp add: trueEvent_def)
qed

lemma riskTrace_base:
  assumes "i < 20"
  shows "baseAlert riskTrace 70 180 60 i"
  using assms by (simp add: baseAlert_def baseHypoAlert_def riskTrace_nth)

lemma riskTrace_proj:
  assumes "5 \<le> i" "i < 20"
  shows "smoothProj riskTrace 60 i = 60"
  using assms by (simp add: smoothProj_def smoothBg_def slopePerMin_def riskTrace_nth)

lemma riskTrace_body:
  assumes "10 \<le> i" "i < 18"
  shows "loopBody riskTrace 70 180 60 2 i st =
     (let (a, p) = improvedStep 70 180 HYPO (1800000 * real i) 60 (policy st)
      in \<lparr>baseCounts = tally True True (baseCounts st),
          impCounts = tally a True (impCounts st),
          policy = p\<rparr>)"
  using assms
  by (simp add: loopBody_def riskTrace_event riskTrace_base riskTrace_proj riskTrace_risk
      riskTrace_nth)

lemma riskTrace_run:
  "runLoop riskTrace 70 180 60 =
     \<lparr>baseCounts = \<lparr>TP = 8, FP = 0, FN = 0\<rparr>,
      impCounts = \<lparr>TP = 4, FP = 0, FN = 4\<rparr>,
      policy = \<lparr>active = HYPO, persist = 8, cooldownUntilMs = 34200000\<rparr>\<rparr>"
  by (simp add: runLoop_def riskTrace_steps riskTrace_length forLoop.simps riskTrace_body
      initState_def improvedStep_def tally_def)


text \<open>
  Claim C7 on the example trace: the whole report, its metrics taken from the theorem.
\<close>

theorem report_metrics_witness:
  "backtest riskTrace 70 180 60 =
     Some \<lparr>baseline = \<lparr>TP = 8, FP = 0, FN = 0, precisionOf = 1, recallOf = 1\<rparr>,
           improved = \<lparr>TP = 4, FP = 0, FN = 4, precisionOf = 1, recallOf = 1 / 2\<rparr>,
           fpReductionPct = 0\<rparr>"
proof -
  obtain r where r: "backtest riskTrace 70 180 60 = Some r"
    by (simp add: backtest_def riskTrace_length)
  then have c: "TP (baseline r) = 8" "FP (baseline r) = 0" "FN (baseline r) = 0"
    "TP (improved r) = 4" "FP (improved r) = 0" "FN (improved r) = 4"
    by (auto simp add: backtest_def riskTrace_length riskTrace_run mkReport_def)
  from report_metrics [OF r] c
  have "precisionOf (baseline r) = 1" "recallOf (baseline r) = 1"
    "precisionOf (improved r) = 1" "recallOf (improved r) = 1 / 2" "fpReductionPct r = 0"
    by simp_all
  with c have "r = \<lparr>baseline = \<lparr>TP = 8, FP = 0, FN = 0, precisionOf = 1, recallOf = 1\<rparr>,
           improved = \<lparr>TP = 4, FP = 0, FN = 4, precisionOf = 1, recallOf = 1 / 2\<rparr>,
           fpReductionPct = 0\<rparr>"
    by (cases r) (auto intro: policy_report.equality)
  with r show ?thesis by simp
qed

text \<open>
  Claim C5 on the example trace at index 10: the samples 11 and 12 are low and none is
  high.
\<close>

theorem future_truth_labels_witness:
  "horizonSteps riskTrace 60 = Some 2 \<and> evaluated riskTrace 60 10
   \<and> trueHypo riskTrace 70 2 10 \<and> \<not> trueHyper riskTrace 180 2 10
   \<and> trueEvent riskTrace 70 180 2 10"
proof -
  have e: "evaluated riskTrace 60 10" by (simp add: riskTrace_evaluated)
  note t = future_truth_labels [OF riskTrace_steps e, of 70 180 initState]
  have "bg (riskTrace ! 11) < 70" by (simp add: riskTrace_nth)
  then have "\<exists>j. 10 + 1 \<le> j \<and> j \<le> 10 + 2 \<and> bg (riskTrace ! j) < 70"
    by (intro exI [of _ 11]) simp
  with t have hypo: "trueHypo riskTrace 70 2 10" by blast
  have "\<not> (\<exists>j. 10 + 1 \<le> j \<and> j \<le> 10 + 2 \<and> 180 < bg (riskTrace ! j))"
  proof
    assume "\<exists>j. 10 + 1 \<le> j \<and> j \<le> 10 + 2 \<and> 180 < bg (riskTrace ! j)"
    then obtain j where "11 \<le> j" "j \<le> 12" "180 < bg (riskTrace ! j)" by auto
    then show False by (simp add: riskTrace_nth)
  qed
  with t have hyper: "\<not> trueHyper riskTrace 180 2 10" by blast
  from t hypo have "trueEvent riskTrace 70 180 2 10" by blast
  with hypo hyper e show ?thesis by (simp add: riskTrace_steps)
qed

lemma runLoop_empty:
  assumes "case horizonSteps series horizonMin of
             None \<Rightarrow> True | Some hs \<Rightarrow> int (length series) - int hs \<le> 10"
  shows "runLoop series low high horizonMin = initState"
  using assms by (auto simp add: runLoop_def forLoop_stop split: option.splits)

lemma mkReport_init:
  "mkReport initState =
     \<lparr>baseline = \<lparr>TP = 0, FP = 0, FN = 0, precisionOf = 0, recallOf = 0\<rparr>,
      improved = \<lparr>TP = 0, FP = 0, FN = 0, precisionOf = 0, recallOf = 0\<rparr>,
      fpReductionPct = 0\<rparr>"
  by (simp add: mkReport_def initState_def precision_def recall_def)

text \<open>
  Claim C3, amended. The evaluator returns its failure result exactly when the trace has
  fewer than 20 samples. With 20 samples or more and \<open>length - horizonSteps \<le> 10\<close> (or a
  \<open>horizonSteps\<close> that is not finite) the loop body never runs and the evaluator returns a
  report whose counts and metrics are all 0.
\<close>

theorem insufficient_data:
  "(backtest series low high horizonMin = None \<longleftrightarrow> length series < 20)
   \<and> (20 \<le> length series
        \<and> (case horizonSteps series horizonMin of
              None \<Rightarrow> True | Some hs \<Rightarrow> int (length series) - int hs \<le> 10)
      \<longrightarrow> backtest series low high horizonMin =
           Some \<lparr>baseline = \<lparr>TP = 0, FP = 0, FN = 0, precisionOf = 0, recallOf = 0\<rparr>,
                 improved = \<lparr>TP = 0, FP = 0, FN = 0, precisionOf = 0, recallOf = 0\<rparr>,
                 fpReductionPct = 0\<rparr>)"
  by (simp add: backtest_def runLoop_empty mkReport_init)

lemma riskTrace_steps_600: "horizonSteps riskTrace 600 = Some 20"
  by (simp add: horizonSteps_def stepMinOf_def riskTrace_nth jsRound_def)

text \<open>
  Claim C3, amended, on the example trace with a horizon of 600 minutes (20 steps).
\<close>

theorem insufficient_data_witness:
  "20 \<le> length riskTrace \<and> horizonSteps riskTrace 600 = Some 20
   \<and> int (length riskTrace) - int 20 \<le> 10
   \<and> backtest riskTrace 70 180 600 =
       Some \<lparr>baseline = \<lparr>TP = 0, FP = 0, FN = 0, precisionOf = 0, recallOf = 0\<rparr>,
             improved = \<lparr>TP = 0, FP = 0, FN = 0, precisionOf = 0, recallOf = 0\<rparr>,
             fpReductionPct = 0\<rparr>"
  using insufficient_data [of riskTrace 70 180 600]
  by (simp add: riskTrace_length riskTrace_steps_600)

text \<open>
  Claim C3 as stated fails: the example trace has 20 samples, a horizon of 600 minutes is
  20 steps, so \<open>length - horizonSteps = 0 \<le> 10\<close>, and the evaluator returns a report, the
  one with nothing counted.
\<close>

theorem insufficient_data_counterexample:
  "\<not> length riskTrace < 20 \<and> horizonSteps riskTrace 600 = Some 20
   \<and> int (length riskTrace) - int 20 \<le> 10
   \<and> backtest riskTrace 70 180 600 \<noteq> None
   \<and> backtest riskTrace 70 180 600 = Some (mkReport initState)"
  by (simp add: backtest_def riskTrace_length riskTrace_steps_600 runLoop_empty)

lemma evaluated_iff:
  assumes "horizonSteps series horizonMin = Some hs"
  shows "evaluated series horizonMin i \<longleftrightarrow> 10 \<le> i \<and> int i \<le> int (length series) - int hs - 1"
  using assms by (auto simp add: evaluated_def)

lemma horizonSteps_pos: "horizonSteps series horizonMin = Some hs \<Longrightarrow> 1 \<le> hs"
  by (auto simp add: horizonSteps_def Let_def split: if_splits)

text \<open>
  Claim C6, amended. For an accepted trace, \<open>stepMin\<close> comes from the first two
  samples, \<open>horizonSteps\<close> is \<open>max(1, round(horizonMin / stepMin))\<close> when \<open>stepMin\<close> is not 0,
  and the report is that of the loop body run in order at the indices from 10 to
  \<open>length - horizonSteps - 1\<close> inclusive, which are the evaluated ones.
\<close>

theorem iteration_range:
  assumes "20 \<le> length series"
  shows "stepMinOf series = (tMs (series ! 1) - tMs (series ! 0)) / 60000
    \<and> (stepMinOf series \<noteq> 0 \<longrightarrow>
         horizonSteps series horizonMin =
           Some (nat (max 1 (jsRound (horizonMin / stepMinOf series)))))
    \<and> (\<forall>hs. horizonSteps series horizonMin = Some hs \<longrightarrow>
         backtest series low high horizonMin =
           Some (mkReport (fold (loopBody series low high horizonMin hs)
                             [10..<nat (int (length series) - int hs)] initState))
         \<and> (\<forall>i. i \<in> set [10..<nat (int (length series) - int hs)] \<longleftrightarrow>
                10 \<le> i \<and> int i \<le> int (length series) - int hs - 1)
         \<and> (\<forall>i. evaluated series horizonMin i \<longleftrightarrow>
                10 \<le> i \<and> int i \<le> int (length series) - int hs - 1))"
proof -
  have a: "stepMinOf series = (tMs (series ! 1) - tMs (series ! 0)) / 60000"
    by (simp add: stepMinOf_def)
  have b: "stepMinOf series \<noteq> 0 \<longrightarrow>
         horizonSteps series horizonMin =
           Some (nat (max 1 (jsRound (horizonMin / stepMinOf series))))"
    by (simp add: horizonSteps_def)
  have c: "backtest series low high horizonMin =
           Some (mkReport (fold (loopBody series low high horizonMin hs)
                             [10..<nat (int (length series) - int hs)] initState))
         \<and> (\<forall>i. i \<in> set [10..<nat (int (length series) - int hs)] \<longleftrightarrow>
                10 \<le> i \<and> int i \<le> int (length series) - int hs - 1)
         \<and> (\<forall>i. evaluated series horizonMin i \<longleftrightarrow>
                10 \<le> i \<and> int i \<le> int (length series) - int hs - 1)"
    if hs: "horizonSteps series horizonMin = Some hs" for hs
  proof -
    have "backtest series low high horizonMin =
           Some (mkReport (fold (loopBody series low high horizonMin hs)
                             [10..<nat (int (length series) - int hs)] initState))"
      using assms hs by (simp add: backtest_def runLoop_def forLoop_fold)
    moreover have "\<forall>i. i \<in> set [10..<nat (int (length series) - int hs)] \<longleftrightarrow>
                10 \<le> i \<and> int i \<le> int (length series) - int hs - 1"
      by auto
    ultimately show ?thesis using evaluated_iff [OF hs] by blast
  qed
  from a b c show ?thesis by blast
qed

lemma riskTrace_steps_1: "horizonSteps riskTrace 1 = Some 1"
  by (simp add: horizonSteps_def stepMinOf_def riskTrace_nth jsRound_def)

text \<open>
  Claim C6 as stated fails: with samples 30 minutes apart and a horizon of 1 minute the
  rounded quotient is 0, \<open>horizonSteps\<close> is 1, and index 19, the last of the range the
  claim gives, is not evaluated.
\<close>

theorem iteration_range_counterexample:
  "20 \<le> length riskTrace \<and> jsRound (1 / stepMinOf riskTrace) = 0
   \<and> horizonSteps riskTrace 1 = Some 1
   \<and> int 19 \<le> int (length riskTrace) - jsRound (1 / stepMinOf riskTrace) - 1
   \<and> \<not> evaluated riskTrace 1 19"
  by (simp add: riskTrace_steps_1 riskTrace_length stepMinOf_def riskTrace_nth jsRound_def
      evaluated_def)

text \<open>
  Claim C6, amended, on the example trace with a horizon of 60 minutes: 2 steps, indices
  10 to 17.
\<close>

theorem iteration_range_witness:
  "20 \<le> length riskTrace \<and> stepMinOf riskTrace = 30
   \<and> horizonSteps riskTrace 60 = Some 2
   \<and> jsRound (60 / stepMinOf riskTrace) = 2
   \<and> backtest riskTrace 70 180 60 =
       Some (mkReport (fold (loopBody riskTrace 70 180 60 2) [10..<18] initState))
   \<and> evaluated riskTrace 60 10 \<and> evaluated riskTrace 60 17 \<and> \<not> evaluated riskTrace 60 18
   \<and> \<not> evaluated riskTrace 60 9"
proof -
  have l: "20 \<le> length riskTrace" by (simp add: riskTrace_length)
  have s: "stepMinOf riskTrace = 30" by (simp add: stepMinOf_def riskTrace_nth)
  from iteration_range [OF l, of 60 70 180] riskTrace_steps
  have "backtest riskTrace 70 180 60 =
       Some (mkReport (fold (loopBody riskTrace 70 180 60 2)
                         [10..<nat (int (length riskTrace) - int 2)] initState))"
    and "\<forall>i. evaluated riskTrace 60 i \<longleftrightarrow> 10 \<le> i \<and> int i \<le> int (length riskTrace) - int 2 - 1"
    by blast+
  then show ?thesis using l s
    by (simp add: riskTrace_length riskTrace_steps jsRound_def)
qed

section \<open>Absorption curve and generated trace\<close>

lemma shape_below_one:
  fixes x :: real
  assumes "x < 1"
  shows "x * exp (1 - x) < 1"
proof (cases "0 < x")
  case True
  have "ln x \<le> x - 1" using True by (rule ln_le_minus_one)
  moreover have "ln x \<noteq> x - 1" using True assms ln_eq_minus_one [of x] by auto
  ultimately have "ln x < x - 1" by simp
  then have "exp (ln x) < exp (x - 1)" by simp
  then have "x < exp (x - 1)" using True by simp
  then have "x * exp (1 - x) < exp (x - 1) * exp (1 - x)"
    by (simp add: mult_strict_right_mono)
  also have "exp (x - 1) * exp (1 - x) = 1"
    by (simp add: exp_add [symmetric])
  finally show ?thesis .
next
  case False
  then have "x * exp (1 - x) \<le> 0" by (simp add: mult_nonpos_nonneg)
  then show ?thesis by simp
qed

lemma absorptionDelta_at_peak:
  assumes "1 \<le> peakMin"
  shows "absorptionDelta peakRise peakMin peakMin = peakRise"
  using assms by (simp add: absorptionDelta_def max_def)

lemma absorptionDelta_below_peak:
  assumes "0 < peakRise" "peakMin < 1"
  shows "absorptionDelta peakRise peakMin peakMin < peakRise"
proof -
  from assms(2) have "absorptionDelta peakRise peakMin peakMin = peakRise * (peakMin * exp (1 - peakMin))"
    by (simp add: absorptionDelta_def max_def)
  moreover have "peakRise * (peakMin * exp (1 - peakMin)) < peakRise * 1"
    using assms(1) shape_below_one [OF assms(2)] by (rule mult_strict_left_mono [rotated])
  ultimately show ?thesis by simp
qed

lemma curveLoop_points:
  "\<forall>p \<in> set (curveLoop currentBg peakRise peakMin horizonMin t).
     snd p = currentBg + absorptionDelta peakRise (fst p) peakMin"
proof (induction currentBg peakRise peakMin horizonMin t rule: curveLoop.induct)
  case (1 currentBg peakRise peakMin horizonMin t)
  show ?case
  proof (cases "real t \<le> horizonMin")
    case True
    with "1.IH" [OF True] show ?thesis
      by (subst curveLoop.simps) simp
  next
    case False
    then show ?thesis by (subst curveLoop.simps) simp
  qed
qed

text \<open>
  Claim C9, amended. The absorption curve is \<open>peakRise * x * exp (1 - x)\<close> with
  \<open>x = elapsedMinutes / max(1, peakMinute)\<close>, and every point of \<open>predictSugarCurve\<close> is the
  current value plus that curve. It is 0 at 0 elapsed minutes. At
  \<open>elapsedMinutes = peakMinute\<close> it is \<open>peakRise\<close> when \<open>peakMinute\<close> is at least 1; below 1 the
  divisor is 1 and, for a positive \<open>peakRise\<close>, the curve stays under \<open>peakRise\<close> there.
\<close>

theorem absorption_curve:
  "absorptionDelta peakRise t peakMin
     = peakRise * (t / max 1 peakMin) * exp (1 - t / max 1 peakMin)
   \<and> absorptionDelta peakRise 0 peakMin = 0
   \<and> (1 \<le> peakMin \<longrightarrow> absorptionDelta peakRise peakMin peakMin = peakRise)
   \<and> (0 < peakRise \<and> peakMin < 1 \<longrightarrow> absorptionDelta peakRise peakMin peakMin < peakRise)
   \<and> (\<forall>p \<in> set (predictSugarCurve currentBg gramsSugar mgdlPerGram peakMin horizonMin
                     activityFactor).
         snd p = currentBg
                   + absorptionDelta (gramsSugar * mgdlPerGram * activityFactor) (fst p) peakMin)"
proof -
  have "absorptionDelta peakRise t peakMin
     = peakRise * (t / max 1 peakMin) * exp (1 - t / max 1 peakMin)"
    by (simp add: absorptionDelta_def Let_def)
  moreover have "absorptionDelta peakRise 0 peakMin = 0"
    by (simp add: absorptionDelta_def)
  ultimately show ?thesis
    using absorptionDelta_at_peak absorptionDelta_below_peak curveLoop_points
    by (simp add: predictSugarCurve_def)
qed

text \<open>
  Claim C9 as stated fails: with \<open>peakRise = 1\<close> the curve at
  \<open>elapsedMinutes = peakMinute\<close> is 0 for \<open>peakMinute = 0\<close> and differs from 1 for
  \<open>peakMinute = 1 / 2\<close>.
\<close>

theorem absorption_curve_counterexample:
  "(0::real) < 1 \<and> absorptionDelta 1 0 0 = 0 \<and> absorptionDelta 1 0 0 \<noteq> 1
   \<and> absorptionDelta 1 (1 / 2) (1 / 2) \<noteq> 1"
proof -
  have "absorptionDelta 1 0 0 = 0" by (simp add: absorptionDelta_def)
  moreover have "absorptionDelta 1 (1 / 2) (1 / 2) < 1"
    by (rule absorptionDelta_below_peak) simp_all
  ultimately show ?thesis by simp
qed

text \<open>
  Claim C9, amended, at the generator's peak minute 45 and a rise of 28, at the peak
  minute \<open>1 / 2\<close>, and on a curve of two points.
\<close>

theorem absorption_curve_witness:
  "(1::real) \<le> 45 \<and> absorptionDelta 28 45 45 = 28 \<and> absorptionDelta 28 0 45 = 0
   \<and> (0::real) < 28 \<and> (1 / 2 :: real) < 1 \<and> absorptionDelta 28 (1 / 2) (1 / 2) < 28
   \<and> predictSugarCurve 100 20 (14 / 10) 45 15 1 = [(0, 100), (10, 100 + absorptionDelta 28 10 45)]"
proof -
  have c: "predictSugarCurve 100 20 (14 / 10) 45 15 1
          = [(0, 100 + absorptionDelta 28 0 45), (10, 100 + absorptionDelta 28 10 45)]"
    by (simp add: predictSugarCurve_def curveLoop.simps)
  from absorption_curve [of 28 0 45] have "absorptionDelta 28 45 45 = 28" "absorptionDelta 28 0 45 = 0"
    by simp_all
  moreover from absorption_curve [of 28 0 "1 / 2"] have "absorptionDelta 28 (1 / 2) (1 / 2) < 28"
    by simp
  ultimately show ?thesis using c by simp
qed

lemma samplePoint_bg:
  "40 \<le> bg (samplePoint rnd startMs mealTimes mealSugar hypoEvents hyperEvents m c)
   \<and> bg (samplePoint rnd startMs mealTimes mealSugar hypoEvents hyperEvents m c) \<le> 400"
  by (simp add: samplePoint_def Let_def)

lemma samplePoint_tMs:
  "tMs (samplePoint rnd startMs mealTimes mealSugar hypoEvents hyperEvents m c)
     = startMs + real_of_int m * 60000"
  by (simp add: samplePoint_def Let_def)

lemma sampleLoop_bg:
  "\<forall>p \<in> set (sampleLoop rnd startMs mealTimes mealSugar hypoEvents hyperEvents totalMinutes r m c).
     40 \<le> bg p \<and> bg p \<le> 400"
proof (induction rnd startMs mealTimes mealSugar hypoEvents hyperEvents totalMinutes r m c
    rule: sampleLoop.induct)
  case (1 rnd startMs mealTimes mealSugar hypoEvents hyperEvents totalMinutes r m c)
  show ?case
  proof (cases "m \<le> totalMinutes")
    case True
    with "1.IH" [OF refl True] samplePoint_bg show ?thesis
      by (subst sampleLoop.simps) (simp add: Let_def)
  next
    case False
    then show ?thesis by (subst sampleLoop.simps) simp
  qed
qed

lemma grid_later:
  fixes a b s t :: real
  assumes "s + b * 60000 \<le> t" "a < b"
  shows "s + a * 60000 < t"
  using assms by simp

lemma sampleLoop_from:
  "\<forall>p \<in> set (sampleLoop rnd startMs mealTimes mealSugar hypoEvents hyperEvents totalMinutes r m c).
     startMs + real_of_int m * 60000 \<le> tMs p"
proof (induction rnd startMs mealTimes mealSugar hypoEvents hyperEvents totalMinutes r m c
    rule: sampleLoop.induct)
  case (1 rnd startMs mealTimes mealSugar hypoEvents hyperEvents totalMinutes r m c)
  show ?case
  proof (cases "m \<le> totalMinutes")
    case True
    have "startMs + real_of_int m * 60000 \<le> tMs p"
      if "p \<in> set (sampleLoop rnd startMs mealTimes mealSugar hypoEvents hyperEvents totalMinutes r
                      (m + max 5 r) (c + 2))" for p
    proof -
      from "1.IH" [OF refl True] that
      have "startMs + real_of_int (m + max 5 r) * 60000 \<le> tMs p" by blast
      moreover have "real_of_int m < real_of_int (m + max 5 r)" by simp
      ultimately show ?thesis by (rule less_imp_le [OF grid_later])
    qed
    with True show ?thesis
      by (subst sampleLoop.simps) (simp add: Let_def samplePoint_tMs)
  next
    case False
    then show ?thesis by (subst sampleLoop.simps) simp
  qed
qed

lemma sampleLoop_sorted:
  "sorted_wrt (\<lambda>p q. tMs p < tMs q)
     (sampleLoop rnd startMs mealTimes mealSugar hypoEvents hyperEvents totalMinutes r m c)"
proof (induction rnd startMs mealTimes mealSugar hypoEvents hyperEvents totalMinutes r m c
    rule: sampleLoop.induct)
  case (1 rnd startMs mealTimes mealSugar hypoEvents hyperEvents totalMinutes r m c)
  show ?case
  proof (cases "m \<le> totalMinutes")
    case True
    have "startMs + real_of_int m * 60000 < tMs p"
      if "p \<in> set (sampleLoop rnd startMs mealTimes mealSugar hypoEvents hyperEvents totalMinutes r
                      (m + max 5 r) (c + 2))" for p
    proof -
      from sampleLoop_from that
      have "startMs + real_of_int (m + max 5 r) * 60000 \<le> tMs p" by blast
      moreover have "real_of_int m < real_of_int (m + max 5 r)" by simp
      ultimately show ?thesis by (rule grid_later)
    qed
    with True "1.IH" [OF refl True] show ?thesis
      by (subst sampleLoop.simps) (simp add: Let_def samplePoint_tMs)
  next
    case False
    then show ?thesis by (subst sampleLoop.simps) simp
  qed
qed

text \<open>
  Claim C8 (generated trace). Whatever the random source returns, the clock reads and the
  two parameters are, every sample of the generated series has its value between 40 and
  400, and the timestamps of the series increase strictly.
\<close>

theorem generated_trace:
  "(\<forall>p \<in> set (generateSyntheticSeries rnd nowMs days approxPoints). 40 \<le> bg p \<and> bg p \<le> 400)
   \<and> sorted_wrt (\<lambda>p q. tMs p < tMs q) (generateSyntheticSeries rnd nowMs days approxPoints)"
  using sampleLoop_bg sampleLoop_sorted samplePoint_bg
  by (simp add: generateSyntheticSeries_def Let_def)


lemma example_series_length: "length (generateSyntheticSeries halfRnd 0 1 1) = 2"
  by (simp add: generateSyntheticSeries_def Let_def jsRound_def sampleLoop.simps)

text \<open>
  Claim C8 on a series of two samples: one day, one point asked for, every draw
  \<open>1 / 2\<close>.
\<close>

theorem generated_trace_witness:
  "length (generateSyntheticSeries halfRnd 0 1 1) = 2
   \<and> 40 \<le> bg (generateSyntheticSeries halfRnd 0 1 1 ! 0)
   \<and> bg (generateSyntheticSeries halfRnd 0 1 1 ! 0) \<le> 400
   \<and> 40 \<le> bg (generateSyntheticSeries halfRnd 0 1 1 ! 1)
   \<and> bg (generateSyntheticSeries halfRnd 0 1 1 ! 1) \<le> 400
   \<and> tMs (generateSyntheticSeries halfRnd 0 1 1 ! 0) < tMs (generateSyntheticSeries halfRnd 0 1 1 ! 1)"
proof -
  let ?xs = "generateSyntheticSeries halfRnd 0 1 1"
  note g = generated_trace [of halfRnd 0 1 1]
  have m: "?xs ! 0 \<in> set ?xs" "?xs ! 1 \<in> set ?xs"
    by (simp_all add: example_series_length)
  with g have "40 \<le> bg (?xs ! 0)" "bg (?xs ! 0) \<le> 400" "40 \<le> bg (?xs ! 1)" "bg (?xs ! 1) \<le> 400"
    by blast+
  moreover from g have "tMs (?xs ! 0) < tMs (?xs ! 1)"
    by (simp add: sorted_wrt_iff_nth_less example_series_length)
  ultimately show ?thesis by (simp add: example_series_length)
qed

section \<open>The alerts the report counts\<close>

text \<open>
  The alerts of \<open>impAlertAt\<close> are the ones the loop counts: after the indices from 10 below
  \<open>n\<close>, the improved policy's true and false positives add up to the number of indices
  at which it fired.
\<close>

lemma tally_alerts:
  "TP (tally a e c) + FP (tally a e c) = TP c + FP c + (if a then 1 else 0)"
  by (simp add: tally_def)

lemma improved_alerts_counted:
  assumes "10 \<le> n"
  shows "TP (impCounts (stateBefore series low high horizonMin hs n))
           + FP (impCounts (stateBefore series low high horizonMin hs n))
         = length (filter (impAlertAt series low high horizonMin hs) [10..<n])"
  using assms
proof (induction n rule: dec_induct)
  case base
  show ?case by (simp add: stateBefore_10 initState_def)
next
  case (step n)
  then show ?case
    by (simp add: stateBefore_Suc counts_loopBody tally_alerts impAlertAt_def)
qed

lemma runLoop_stateBefore:
  assumes "horizonSteps series horizonMin = Some hs"
  shows "runLoop series low high horizonMin =
           stateBefore series low high horizonMin hs (nat (int (length series) - int hs))"
  using assms by (simp add: runLoop_def stateBefore_def)

end
